theory Spec2Isabelle
  imports Main "HOL-Library.Sublist"
begin

section \<open>Python strings\<close>

text \<open>
  A Python \<open>str\<close> is modelled as a \<open>string\<close>, one \<open>char\<close> per character. Every
  string operation the program uses (\<open>in\<close>, \<open>split\<close>, \<open>rstrip\<close>, \<open>replace\<close>, indexing)
  treats characters as opaque, and every pattern in the source is ASCII.
\<close>

text \<open>\<open>pat in s\<close> for two strings: \<open>pat\<close> occurs in \<open>s\<close> as a contiguous run.\<close>

fun str_contains :: "string \<Rightarrow> string \<Rightarrow> bool" where
  "str_contains pat [] = (pat = [])"
| "str_contains pat (c # cs) = (prefix pat (c # cs) \<or> str_contains pat cs)"

datatype url_type = Spotify | Jiosaavn | Other

text \<open>\<open>detect_url_type\<close>, lines 251-258.\<close>

definition detect_url_type :: "string \<Rightarrow> url_type" where
  "detect_url_type url =
     (if str_contains ''spotify.com'' url then Spotify
      else if str_contains ''jiosaavn.com'' url \<or> str_contains ''saavn.com'' url then Jiosaavn
      else Other)"

text \<open>
  \<open>s.split(sep)\<close> for a non-empty separator: the pieces between the occurrences of
  \<open>sep\<close>, found from the left and never overlapping. Every separator in the source is a
  non-empty literal, so the \<open>ValueError\<close> of an empty separator cannot arise.
\<close>

fun py_split :: "string \<Rightarrow> string \<Rightarrow> string list" where
  "py_split sep [] = [[]]"
| "py_split sep (c # cs) =
     (if prefix sep (c # cs) then [] # py_split sep (drop (length sep - 1) cs)
      else (case py_split sep cs of [] \<Rightarrow> [[c]] | p # ps \<Rightarrow> (c # p) # ps))"

text \<open>\<open>sep.join(xs)\<close> for a list of strings.\<close>

fun py_join :: "string \<Rightarrow> string list \<Rightarrow> string" where
  "py_join sep [] = []"
| "py_join sep [x] = x"
| "py_join sep (x # y # ys) = x @ sep @ py_join sep (y # ys)"

text \<open>\<open>s.replace(old, new)\<close> for single characters, and \<open>s.rstrip(chars)\<close>.\<close>

definition str_replace_char :: "char \<Rightarrow> char \<Rightarrow> string \<Rightarrow> string" where
  "str_replace_char old new s = map (\<lambda>c. if c = old then new else c) s"

definition str_rstrip :: "string \<Rightarrow> string \<Rightarrow> string" where
  "str_rstrip chars s = rev (dropWhile (\<lambda>c. c \<in> set chars) (rev s))"

text \<open>The three places where the program cuts an identifier or a name out of a URL.\<close>

definition song_id_of_url :: "string \<Rightarrow> string" where
  \<comment> \<open>line 19: \<open>song_url.rstrip('/').split('/')[-1]\<close>\<close>
  "song_id_of_url song_url = last (py_split ''/'' (str_rstrip ''/'' song_url))"

definition track_id_of_url :: "string \<Rightarrow> string" where
  \<comment> \<open>line 139: \<open>track_url.split("/track/")[-1].split("?")[0]\<close>\<close>
  "track_id_of_url track_url = hd (py_split ''?'' (last (py_split ''/track/'' track_url)))"

definition song_name_of_url :: "string \<Rightarrow> string" where
  \<comment> \<open>line 328: \<open>url.split('/song/')[-1].split('/')[0].replace('-', ' ')\<close>\<close>
  "song_name_of_url url =
     str_replace_char (CHR ''-'') (CHR '' '') (hd (py_split ''/'' (last (py_split ''/song/'' url))))"

section \<open>Integers as text\<close>

text \<open>\<open>str(i)\<close> and the format specification \<open>02d\<close> for a Python \<open>int\<close>.\<close>

fun nat_digits :: "nat \<Rightarrow> string" where
  "nat_digits n =
     (if n < 10 then [''0123456789'' ! n]
      else nat_digits (n div 10) @ [''0123456789'' ! (n mod 10)])"

definition py_str_int :: "int \<Rightarrow> string" where
  "py_str_int i = (if i < 0 then CHR ''-'' # nat_digits (nat (- i)) else nat_digits (nat i))"

definition format_02d :: "int \<Rightarrow> string" where
  \<comment> \<open>zero padding to width 2; the sign counts towards the width\<close>
  "format_02d i =
     (if i < 0 then CHR ''-'' # nat_digits (nat (- i))
      else if i < 10 then CHR ''0'' # nat_digits (nat i)
      else nat_digits (nat i))"

text \<open>
  The two duration computations of \<open>main\<close> (lines 309-310 and 347-348), and the text
  \<open>f"{duration_min}:{duration_sec:02d}"\<close> shown for them (lines 317 and 357).
\<close>

definition min_sec_of_seconds :: "int \<Rightarrow> int \<times> int" where
  "min_sec_of_seconds duration = (duration div 60, duration mod 60)"

definition min_sec_of_ms :: "int \<Rightarrow> int \<times> int" where
  "min_sec_of_ms duration_ms = (duration_ms div 60000, (duration_ms mod 60000) div 1000)"

definition duration_text :: "int \<times> int \<Rightarrow> string" where
  "duration_text ms = (case ms of (duration_min, duration_sec) \<Rightarrow>
     py_str_int duration_min @ '':'' @ format_02d duration_sec)"

section \<open>Python values and exceptions\<close>

text \<open>
  What \<open>response.json()\<close> and \<open>extract_info\<close> hand to the program: \<open>None\<close>, booleans,
  integers, floats, strings, lists and dicts. A float is carried as mantissa and binary
  exponent; the program never completes a computation on one. A dict is an association
  list in insertion order; lookup is \<open>map_of\<close>, a dict built by Python has distinct keys.
\<close>

datatype pyval =
    PNone
  | PBool bool
  | PInt int
  | PFloat int int
  | PStr string
  | PList "pyval list"
  | PDict "(string \<times> pyval) list"

text \<open>
  The exceptions the program can meet. \<open>ExternalError\<close> stands for whatever the HTTP
  client or the download library raises; every handler in the source catches
  \<open>Exception\<close>, so the kind never decides a branch.
\<close>

datatype exn = TypeError | KeyError | IndexError | ValueError | AttributeError | ExternalError

text \<open>Truth value of an object, as \<open>not v\<close> and \<open>if v\<close> read it.\<close>

fun py_truthy :: "pyval \<Rightarrow> bool" where
  "py_truthy PNone = False"
| "py_truthy (PBool b) = b"
| "py_truthy (PInt i) = (i \<noteq> 0)"
| "py_truthy (PFloat m e) = (m \<noteq> 0)"
| "py_truthy (PStr s) = (s \<noteq> [])"
| "py_truthy (PList xs) = (xs \<noteq> [])"
| "py_truthy (PDict kvs) = (kvs \<noteq> [])"

text \<open>\<open>isinstance(v, dict)\<close>.\<close>

fun is_dict :: "pyval \<Rightarrow> bool" where
  "is_dict (PDict kvs) = True"
| "is_dict v = False"

text \<open>\<open>len(v)\<close>.\<close>

fun py_len :: "pyval \<Rightarrow> exn + nat" where
  "py_len (PStr s) = Inr (length s)"
| "py_len (PList xs) = Inr (length xs)"
| "py_len (PDict kvs) = Inr (length kvs)"
| "py_len v = Inl TypeError"

text \<open>\<open>v[0]\<close>. The keys of a parsed JSON object are strings, so \<open>0\<close> is never a key.\<close>

fun py_item0 :: "pyval \<Rightarrow> exn + pyval" where
  "py_item0 (PList []) = Inl IndexError"
| "py_item0 (PList (x # xs)) = Inr x"
| "py_item0 (PStr []) = Inl IndexError"
| "py_item0 (PStr (c # cs)) = Inr (PStr [c])"
| "py_item0 (PDict kvs) = Inl KeyError"
| "py_item0 v = Inl TypeError"

text \<open>\<open>k in v\<close> for a string \<open>k\<close>.\<close>

fun py_in :: "string \<Rightarrow> pyval \<Rightarrow> exn + bool" where
  "py_in k (PDict kvs) = Inr (k \<in> fst ` set kvs)"
| "py_in k (PStr s) = Inr (str_contains k s)"
| "py_in k (PList xs) = Inr (PStr k \<in> set xs)"
| "py_in k v = Inl TypeError"

text \<open>\<open>v[k]\<close> for a string \<open>k\<close>.\<close>

fun py_item :: "pyval \<Rightarrow> string \<Rightarrow> exn + pyval" where
  "py_item (PDict kvs) k = (case map_of kvs k of None \<Rightarrow> Inl KeyError | Some x \<Rightarrow> Inr x)"
| "py_item v k = Inl TypeError"

text \<open>\<open>v.get(k, default)\<close>: only a dict has the method.\<close>

fun py_get :: "pyval \<Rightarrow> string \<Rightarrow> pyval \<Rightarrow> exn + pyval" where
  "py_get (PDict kvs) k dflt = (case map_of kvs k of None \<Rightarrow> Inr dflt | Some x \<Rightarrow> Inr x)"
| "py_get v k dflt = Inl AttributeError"

text \<open>Sequencing of steps that may raise.\<close>

definition and_then :: "exn + 'a \<Rightarrow> ('a \<Rightarrow> exn + 'b) \<Rightarrow> exn + 'b" where
  "and_then r f = (case r of Inl e \<Rightarrow> Inl e | Inr x \<Rightarrow> f x)"

text \<open>\<open>try: ... except Exception: return None\<close>.\<close>

definition or_none :: "exn + pyval \<Rightarrow> pyval" where
  "or_none r = (case r of Inl e \<Rightarrow> PNone | Inr x \<Rightarrow> x)"

text \<open>Running a step over a list, stopping at the first exception.\<close>

fun map_raise :: "('a \<Rightarrow> exn + 'b) \<Rightarrow> 'a list \<Rightarrow> exn + 'b list" where
  "map_raise f [] = Inr []"
| "map_raise f (x # xs) = and_then (f x) (\<lambda>y. and_then (map_raise f xs) (\<lambda>ys. Inr (y # ys)))"

text \<open>\<open>for x in v\<close>: the elements of a list, the characters of a string, the keys of a dict.\<close>

fun py_iter :: "pyval \<Rightarrow> exn + pyval list" where
  "py_iter (PList xs) = Inr xs"
| "py_iter (PStr s) = Inr (map (\<lambda>c. PStr [c]) s)"
| "py_iter (PDict kvs) = Inr (map (\<lambda>kv. PStr (fst kv)) kvs)"
| "py_iter v = Inl TypeError"

text \<open>\<open>sep.join(xs)\<close> for a list of objects: every item must be a \<open>str\<close>.\<close>

fun str_item :: "pyval \<Rightarrow> exn + string" where
  "str_item (PStr s) = Inr s"
| "str_item v = Inl TypeError"

definition py_join_values :: "string \<Rightarrow> pyval list \<Rightarrow> exn + string" where
  "py_join_values sep xs = and_then (map_raise str_item xs) (\<lambda>ss. Inr (py_join sep ss))"

text \<open>
  The arithmetic on a duration taken from a response: \<open>int\<close> and \<open>bool\<close> compute,
  a float computes to floats (\<open>None\<close> here, its value is never used), anything else raises
  at \<open>//\<close>. The format \<open>02d\<close> then raises \<open>ValueError\<close> on a float.
\<close>

fun duration_parts :: "(int \<Rightarrow> int \<times> int) \<Rightarrow> pyval \<Rightarrow> exn + (int \<times> int) option" where
  "duration_parts f (PInt i) = Inr (Some (f i))"
| "duration_parts f (PBool b) = Inr (Some (f (if b then 1 else 0)))"
| "duration_parts f (PFloat m e) = Inr None"
| "duration_parts f v = Inl TypeError"

fun duration_shown :: "(int \<times> int) option \<Rightarrow> exn + string" where
  "duration_shown None = Inl ValueError"
| "duration_shown (Some ms) = Inr (duration_text ms)"

section \<open>The outside world\<close>

text \<open>
  The download options handed to the download library (a dict in the source). A field
  that the source sets only on some paths is optional.
\<close>

record ydl_opts =
  format :: string
  outtmpl :: string
  quiet :: bool
  keepvideo :: bool
  postprocessors :: "(string \<times> string) list list option"
  no_warnings :: "bool option"
  extract_audio :: "bool option"
  extractor_args :: "(string \<times> (string \<times> string list) list) list option"

text \<open>The calls that leave the program, in the order they are made.\<close>

datatype event =
    SaavnApiGet "(string \<times> pyval) list"
  | SpotifyTokenPost
  | SpotifyTrackGet string pyval
  | YdlExtractInfo string ydl_opts

text \<open>
  What the outside answers: for each HTTP call the parsed JSON body, or the exception of
  the request, of \<open>raise_for_status\<close> or of the parser; for the download library the
  \<open>info\<close> of \<open>extract_info(target, download=True)\<close> or its exception. \<open>str_other\<close> is
  Python's \<open>str()\<close> on objects that are not strings, used when an f-string shows one.
  The Spotify credentials are constants of the program, so the token endpoint's answer
  has no argument.
\<close>

record world =
  saavn_api :: "(string \<times> pyval) list \<Rightarrow> exn + pyval"
  spotify_token :: "exn + pyval"
  spotify_track :: "string \<Rightarrow> pyval \<Rightarrow> exn + pyval"
  ydl_extract_info :: "string \<Rightarrow> ydl_opts \<Rightarrow> exn + pyval"
  str_other :: "pyval \<Rightarrow> string"

definition py_format :: "world \<Rightarrow> pyval \<Rightarrow> string" where
  "py_format w v = (case v of PStr s \<Rightarrow> s | _ \<Rightarrow> str_other w v)"

section \<open>JioSaavnAPI\<close>

text \<open>
  The loop of lines 47-50 over \<open>data.keys()\<close>: the value of the first key whose value
  is a dict; when the loop ends without one, control reaches \<open>return None\<close> of line 53.
\<close>

fun first_dict_value :: "pyval \<Rightarrow> string list \<Rightarrow> exn + pyval" where
  "first_dict_value data [] = Inr PNone"
| "first_dict_value data (key # keys) =
     and_then (py_item data key) (\<lambda>v.
       if is_dict v then py_item data key else first_dict_value data keys)"

text \<open>Lines 37-53 of \<open>get_song_details\<close>, before the handler.\<close>

definition extract_song_data :: "string \<Rightarrow> pyval \<Rightarrow> exn + pyval" where
  "extract_song_data song_id data =
     (case data of
        PDict kvs \<Rightarrow>
          and_then (py_in song_id data) (\<lambda>by_id.
            if by_id then py_item data song_id
            else
              and_then (py_in ''songs'' data) (\<lambda>has_songs.
              and_then (if has_songs
                        then and_then (py_item data ''songs'') (\<lambda>songs.
                             and_then (py_len songs) (\<lambda>n. Inr (n > 0)))
                        else Inr False) (\<lambda>in_songs.
                if in_songs then and_then (py_item data ''songs'') py_item0
                else first_dict_value data (map fst kvs))))
      | _ \<Rightarrow> Inr PNone)"

text \<open>
  \<open>get_song_details\<close>, lines 15-59: one call of the details endpoint, then the
  extraction; any exception is answered by \<open>None\<close>.
\<close>

definition details_params :: "string \<Rightarrow> (string \<times> pyval) list" where
  \<comment> \<open>lines 23-29\<close>
  "details_params song_id =
     [(''__call'', PStr ''song.getDetails''), (''cc'', PStr ''in''), (''pids'', PStr song_id),
      (''_format'', PStr ''json''), (''_marker'', PStr ''0'')]"

definition get_song_details :: "world \<Rightarrow> string \<Rightarrow> event list \<times> pyval" where
  "get_song_details w song_url =
     (let song_id = song_id_of_url song_url;
          params = details_params song_id
      in ([SaavnApiGet params],
          or_none (and_then (saavn_api w params) (extract_song_data song_id))))"

text \<open>\<open>decrypt_url\<close>, lines 79-101.\<close>

definition decrypt_params :: "pyval \<Rightarrow> string \<Rightarrow> (string \<times> pyval) list" where
  \<comment> \<open>lines 83-89\<close>
  "decrypt_params encrypted_url quality =
     [(''__call'', PStr ''song.generateAuthToken''), (''url'', encrypted_url),
      (''bitrate'', PStr quality), (''_format'', PStr ''json''), (''_marker'', PStr ''0'')]"

definition decrypt_url :: "world \<Rightarrow> pyval \<Rightarrow> string \<Rightarrow> event list \<times> pyval" where
  "decrypt_url w encrypted_url quality =
     (let params = decrypt_params encrypted_url quality
      in ([SaavnApiGet params],
          or_none (and_then (saavn_api w params) (\<lambda>data.
                   and_then (py_in ''auth_url'' data) (\<lambda>has_auth.
                     if has_auth then py_item data ''auth_url'' else Inr PNone)))))"

text \<open>\<open>get_audio_url\<close>, lines 61-77.\<close>

definition get_audio_url :: "world \<Rightarrow> pyval \<Rightarrow> string \<Rightarrow> event list \<times> pyval" where
  "get_audio_url w song_details quality =
     (case py_in ''encrypted_media_url'' song_details of
        Inl e \<Rightarrow> ([], PNone)
      | Inr True \<Rightarrow>
          (case py_item song_details ''encrypted_media_url'' of
             Inl e \<Rightarrow> ([], PNone)
           | Inr encrypted_url \<Rightarrow> decrypt_url w encrypted_url quality)
      | Inr False \<Rightarrow>
          ([], or_none (and_then (py_in ''media_preview_url'' song_details) (\<lambda>has_preview.
                 if has_preview then py_item song_details ''media_preview_url''
                 else Inr PNone))))"

text \<open>
  The fallback chain in the words of the specification, for comparison with
  \<open>get_song_details\<close>: the value under the id when the id is a top-level key; else the
  first element of a non-empty array under \<open>songs\<close>; else the value of the first
  top-level key whose value is a dict; else \<open>None\<close>.
\<close>

definition spec_song_details :: "string \<Rightarrow> (string \<times> pyval) list \<Rightarrow> pyval" where
  "spec_song_details song_id kvs =
     (case map_of kvs song_id of
        Some v \<Rightarrow> v
      | None \<Rightarrow>
          (case map_of kvs ''songs'' of
             Some (PList (x # xs)) \<Rightarrow> x
           | _ \<Rightarrow> (case find (\<lambda>kv. is_dict (snd kv)) kvs of
                     Some kv \<Rightarrow> snd kv
                   | None \<Rightarrow> PNone)))"

section \<open>SpotifyAPI\<close>

record spotify_api =
  access_token :: pyval

text \<open>\<open>get_access_token\<close>, lines 111-130.\<close>

definition get_access_token :: "world \<Rightarrow> spotify_api \<Rightarrow> event list \<times> spotify_api \<times> bool" where
  "get_access_token w self =
     (case and_then (spotify_token w) (\<lambda>body. py_item body ''access_token'') of
        Inl e \<Rightarrow> ([SpotifyTokenPost], self, False)
      | Inr token \<Rightarrow> ([SpotifyTokenPost], self\<lparr>access_token := token\<rparr>, True))"

text \<open>\<open>get_track_info\<close>, lines 132-150.\<close>

definition get_track_info :: "world \<Rightarrow> spotify_api \<Rightarrow> string \<Rightarrow> event list \<times> spotify_api \<times> pyval" where
  "get_track_info w self track_url =
     (case (if \<not> py_truthy (access_token self) then get_access_token w self
            else ([], self, True)) of
        (evs, self', authenticated) \<Rightarrow>
          if \<not> authenticated then (evs, self', PNone)
          else
            let track_id = track_id_of_url track_url
            in (evs @ [SpotifyTrackGet track_id (access_token self')], self',
                or_none (spotify_track w track_id (access_token self'))))"

section \<open>AudioDownloader\<close>

record preset =
  name :: string
  codec :: string
  bitrate :: "string option"

definition QUALITY_PRESETS :: "(string \<times> preset) list" where
  "QUALITY_PRESETS =
     [(''1'', \<lparr>name = ''M4A 320kbps (Best Quality)'', codec = ''m4a'', bitrate = Some ''320''\<rparr>),
      (''2'', \<lparr>name = ''Opus 160kbps (High Efficiency)'', codec = ''opus'', bitrate = Some ''160''\<rparr>),
      (''3'', \<lparr>name = ''Best Available (No Conversion)'', codec = ''best'', bitrate = None\<rparr>)]"

text \<open>
  \<open>self.QUALITY_PRESETS.get(quality_choice, self.QUALITY_PRESETS['1'])\<close>, lines 176, 234
  and 298. The default is evaluated first, as Python evaluates arguments.
\<close>

definition preset_for :: "string \<Rightarrow> exn + preset" where
  "preset_for quality_choice =
     (case map_of QUALITY_PRESETS ''1'' of
        None \<Rightarrow> Inl KeyError
      | Some dflt \<Rightarrow>
          (case map_of QUALITY_PRESETS quality_choice of
             None \<Rightarrow> Inr dflt
           | Some p \<Rightarrow> Inr p))"

record audio_downloader =
  output_dir :: string

text \<open>\<open>get_download_options\<close>, lines 174-200.\<close>

definition get_download_options :: "audio_downloader \<Rightarrow> string \<Rightarrow> exn + ydl_opts" where
  "get_download_options self quality_choice =
     and_then (preset_for quality_choice) (\<lambda>preset.
       let ydl_opts = \<lparr>format = ''bestaudio/best'',
                       outtmpl = output_dir self @ ''/%(title)s.%(ext)s'',
                       quiet = False, keepvideo = True, postprocessors = None,
                       no_warnings = None, extract_audio = None, extractor_args = None\<rparr>
       in if codec preset = ''best'' then Inr (ydl_opts\<lparr>postprocessors := Some []\<rparr>)
          else
            let postprocessor = [(''key'', ''FFmpegExtractAudio''),
                                 (''preferredcodec'', codec preset)];
                postprocessor' = (case bitrate preset of
                                    None \<Rightarrow> postprocessor
                                  | Some b \<Rightarrow> if b \<noteq> [] then postprocessor @ [(''preferredquality'', b)]
                                              else postprocessor)
            in Inr (ydl_opts\<lparr>postprocessors := Some [postprocessor']\<rparr>))"

text \<open>\<open>download_youtube\<close>, lines 224-249: the download library in search mode.\<close>

definition search_options :: "ydl_opts \<Rightarrow> ydl_opts" where
  \<comment> \<open>lines 230-232\<close>
  "search_options opts =
     opts\<lparr>no_warnings := Some False, extract_audio := Some True,
          extractor_args := Some [(''youtube'', [(''player_client'', [''android'', ''web''])])]\<rparr>"

definition download_youtube :: "world \<Rightarrow> audio_downloader \<Rightarrow> string \<Rightarrow> string \<Rightarrow> event list \<times> bool" where
  "download_youtube w self search_query quality_choice =
     (let url = ''ytsearch1:'' @ search_query
      in case and_then (get_download_options self quality_choice) (\<lambda>opts0.
              and_then (preset_for quality_choice) (\<lambda>preset.
                Inr (search_options opts0))) of
           Inl e \<Rightarrow> ([], False)
         | Inr ydl_opts \<Rightarrow>
             ([YdlExtractInfo url ydl_opts],
              (case and_then (ydl_extract_info w url ydl_opts) (\<lambda>info.
                      py_get info ''title'' (PStr ''Unknown'')) of
                 Inl e \<Rightarrow> False
               | Inr title \<Rightarrow> True)))"

section \<open>main\<close>

text \<open>
  How a run ends: a download reported as successful, a download reported as failed,
  the exit after "Failed to get track information", the "Unknown URL type" message,
  or an exception that no handler catches.
\<close>

datatype outcome = Downloaded | DownloadFailed | NoTrackInfo | UnknownUrlType | Uncaught exn

text \<open>
  A run has failed when it ends without a download reported as successful.
\<close>

fun failed :: "outcome \<Rightarrow> bool" where
  "failed Downloaded = False"
| "failed r = True"

text \<open>Lines 306-320: the fields read from \<open>info\<close> and shown after a direct download.\<close>

definition show_saavn_info :: "pyval \<Rightarrow> exn + string" where
  "show_saavn_info info =
     and_then (py_get info ''track'' (PStr ''Unknown'')) (\<lambda>track_dflt.
     and_then (py_get info ''title'' track_dflt) (\<lambda>track_name.
     and_then (py_get info ''uploader'' (PStr ''Unknown'')) (\<lambda>artist_dflt.
     and_then (py_get info ''artist'' artist_dflt) (\<lambda>artists.
     and_then (py_get info ''duration'' (PInt 0)) (\<lambda>duration.
     and_then (duration_parts min_sec_of_seconds duration) (\<lambda>parts.
     duration_shown parts))))))"

text \<open>
  Lines 342-359: the fields read from \<open>track_info\<close> and the lines shown for them.
  The result keeps what the rest of the branch uses, the track name and the artist
  names, and the duration line as it was shown.
\<close>

definition artist_names :: "pyval \<Rightarrow> exn + pyval list" where
  \<comment> \<open>\<open>[artist['name'] for artist in ...]\<close>\<close>
  "artist_names v = and_then (py_iter v) (map_raise (\<lambda>artist. py_item artist ''name''))"

definition show_spotify_info :: "pyval \<Rightarrow> exn + (pyval \<times> pyval list \<times> string)" where
  "show_spotify_info track_info =
     and_then (py_get track_info ''name'' (PStr ''Unknown'')) (\<lambda>track_name.
     and_then (py_get track_info ''artists'' (PList [])) (\<lambda>artist_objs.
     and_then (artist_names artist_objs) (\<lambda>artists.
     and_then (py_get track_info ''album'' (PDict [])) (\<lambda>album.
     and_then (py_get album ''name'' (PStr ''Unknown'')) (\<lambda>album_name.
     and_then (py_get track_info ''album'' (PDict [])) (\<lambda>album'.
     and_then (py_get album' ''release_date'' (PStr ''Unknown'')) (\<lambda>release_date.
     and_then (py_get track_info ''duration_ms'' (PInt 0)) (\<lambda>duration_ms.
     and_then (duration_parts min_sec_of_ms duration_ms) (\<lambda>parts.
     and_then (py_join_values '', '' artists) (\<lambda>artists_line.
     and_then (duration_shown parts) (\<lambda>duration_line.
     Inr (track_name, artists, duration_line))))))))))))"

text \<open>
  Lines 342-364: after the lines are shown, the search phrase
  \<open>f"{track_name} {' '.join(artists)}"\<close>.
\<close>

definition spotify_search_query :: "world \<Rightarrow> pyval \<Rightarrow> exn + string" where
  "spotify_search_query w track_info =
     and_then (show_spotify_info track_info) (\<lambda>shown.
       case shown of (track_name, artists, duration_line) \<Rightarrow>
         and_then (py_join_values '' '' artists) (\<lambda>joined.
         Inr (py_format w track_name @ '' '' @ joined)))"

text \<open>The YouTube search that both branches end in (lines 329 and 365).\<close>

definition search_and_report :: "world \<Rightarrow> audio_downloader \<Rightarrow> event list \<Rightarrow> string \<Rightarrow> string \<Rightarrow> event list \<times> outcome" where
  "search_and_report w downloader evs search_query quality =
     (case download_youtube w downloader search_query quality of
        (evs', ok) \<Rightarrow> (evs @ evs', if ok then Downloaded else DownloadFailed))"

text \<open>The JioSaavn branch, lines 292-329.\<close>

definition main_jiosaavn :: "world \<Rightarrow> audio_downloader \<Rightarrow> string \<Rightarrow> string \<Rightarrow> event list \<times> outcome" where
  "main_jiosaavn w downloader url quality =
     (case and_then (get_download_options downloader quality) (\<lambda>ydl_opts.
           and_then (preset_for quality) (\<lambda>preset. Inr ydl_opts)) of
        Inl e \<Rightarrow> search_and_report w downloader [] (song_name_of_url url) quality
      | Inr ydl_opts \<Rightarrow>
          (case and_then (ydl_extract_info w url ydl_opts) show_saavn_info of
             Inr shown \<Rightarrow> ([YdlExtractInfo url ydl_opts], Downloaded)
           | Inl e \<Rightarrow>
               search_and_report w downloader [YdlExtractInfo url ydl_opts]
                 (song_name_of_url url) quality))"

text \<open>The Spotify branch, lines 331-365.\<close>

definition main_spotify :: "world \<Rightarrow> audio_downloader \<Rightarrow> string \<Rightarrow> string \<Rightarrow> event list \<times> outcome" where
  "main_spotify w downloader url quality =
     (case get_track_info w \<lparr>access_token = PNone\<rparr> url of
        (evs, spotify, track_info) \<Rightarrow>
          if \<not> py_truthy track_info then (evs, NoTrackInfo)
          else
            (case spotify_search_query w track_info of
               Inl e \<Rightarrow> (evs, Uncaught e)
             | Inr search_query \<Rightarrow> search_and_report w downloader evs search_query quality))"

text \<open>
  \<open>main\<close>, lines 260-368, from the two answers typed at the prompts (already stripped
  of surrounding blanks): the calls made, in order, and how the run ends. Creating the
  output directory and printing are not part of the model.
\<close>

definition default_url :: string where
  "default_url = ''https://www.jiosaavn.com/song/slava-funk/Mi8IRkxDAUM''"

definition url_or_default :: "string \<Rightarrow> string" where
  "url_or_default url_input = (if url_input = [] then default_url else url_input)"

definition quality_or_default :: "string \<Rightarrow> string" where
  "quality_or_default quality_input =
     (let quality = (if quality_input = [] then ''1'' else quality_input)
      in if quality \<in> fst ` set QUALITY_PRESETS then quality else ''1'')"

definition main :: "world \<Rightarrow> string \<Rightarrow> string \<Rightarrow> event list \<times> outcome" where
  "main w url_input quality_input =
     (let downloader = \<lparr>output_dir = ''downloads''\<rparr>;
          url = url_or_default url_input;
          url_type = detect_url_type url;
          quality = quality_or_default quality_input
      in case url_type of
           Jiosaavn \<Rightarrow> main_jiosaavn w downloader url quality
         | Spotify \<Rightarrow> main_spotify w downloader url quality
         | Other \<Rightarrow> ([], UnknownUrlType))"

text \<open>Which calls are download attempts, and which go over the network at all.\<close>

fun is_download :: "event \<Rightarrow> bool" where
  "is_download (YdlExtractInfo target opts) = True"
| "is_download ev = False"

section \<open>Sample worlds\<close>

text \<open>
  Concrete surroundings for evaluating the program: every endpoint gives one fixed
  answer, whatever it is asked.
\<close>

definition fixed_world :: "exn + pyval \<Rightarrow> exn + pyval \<Rightarrow> exn + pyval \<Rightarrow> exn + pyval \<Rightarrow> world" where
  "fixed_world saavn token track info =
     \<lparr>saavn_api = (\<lambda>params. saavn), spotify_token = token,
      spotify_track = (\<lambda>track_id bearer. track),
      ydl_extract_info = (\<lambda>target opts. info),
      str_other = (\<lambda>v. ''object'')\<rparr>"

definition offline_world :: world where
  "offline_world =
     fixed_world (Inl ExternalError) (Inl ExternalError) (Inl ExternalError) (Inl ExternalError)"

text \<open>The details endpoint answers with an object under \<open>songs\<close> instead of an array.\<close>

definition songs_object_world :: world where
  "songs_object_world =
     fixed_world (Inr (PDict [(''songs'', PDict [(''id'', PStr ''Mi8IRkxDAUM'')])]))
       (Inl ExternalError) (Inl ExternalError) (Inl ExternalError)"

text \<open>
  The Spotify endpoints answer: the token is granted and the track endpoint returns a
  track object with two artists.
\<close>

definition duet_track_world :: world where
  "duet_track_world =
     fixed_world (Inl ExternalError) (Inr (PDict [(''access_token'', PStr ''BQDtoken'')]))
       (Inr (PDict [(''name'', PStr ''Under Pressure''),
                    (''artists'', PList [PDict [(''name'', PStr ''Queen'')],
                                         PDict [(''name'', PStr ''David Bowie'')]]),
                    (''album'', PDict [(''name'', PStr ''Hot Space''),
                                       (''release_date'', PStr ''1982-05-21'')]),
                    (''duration_ms'', PInt 248440)]))
       (Inr (PDict [(''title'', PStr ''Queen - Under Pressure'')]))"

section \<open>Properties\<close>

lemma str_contains_sublist: "str_contains pat s = sublist pat s"
  by (induction s) (simp_all add: sublist_Cons_right)

text \<open>
  C1. The classifier answers spotify when \<open>spotify.com\<close> occurs in the URL, otherwise
  jiosaavn when \<open>jiosaavn.com\<close> or \<open>saavn.com\<close> occurs, otherwise other. Occurrence is
  occurrence as a contiguous substring, compared character by character (an upper-case
  \<open>SPOTIFY.COM\<close> is not recognised). The classifier is a total function of the URL alone.
\<close>

theorem detect_url_type_rule:
  "detect_url_type url =
     (if (\<exists>pre post. url = pre @ ''spotify.com'' @ post) then Spotify
      else if (\<exists>pre post. url = pre @ ''jiosaavn.com'' @ post)
            \<or> (\<exists>pre post. url = pre @ ''saavn.com'' @ post) then Jiosaavn
      else Other)
   \<and> detect_url_type ''https://open.SPOTIFY.COM/track/x'' = Other"
proof
  show "detect_url_type url =
     (if (\<exists>pre post. url = pre @ ''spotify.com'' @ post) then Spotify
      else if (\<exists>pre post. url = pre @ ''jiosaavn.com'' @ post)
            \<or> (\<exists>pre post. url = pre @ ''saavn.com'' @ post) then Jiosaavn
      else Other)"
    unfolding detect_url_type_def str_contains_sublist sublist_def by simp
  show "detect_url_type ''https://open.SPOTIFY.COM/track/x'' = Other"
    by (simp add: detect_url_type_def)
qed

theorem detect_url_type_rule_witness:
  "detect_url_type ''https://www.jiosaavn.com/song/slava-funk/Mi8IRkxDAUM'' = Jiosaavn"
proof -
  have a: "\<not> str_contains ''spotify.com'' ''https://www.jiosaavn.com/song/slava-funk/Mi8IRkxDAUM''"
    by simp
  have b: "str_contains ''jiosaavn.com'' ''https://www.jiosaavn.com/song/slava-funk/Mi8IRkxDAUM''"
    by simp
  from a b show ?thesis
    using detect_url_type_rule [of "''https://www.jiosaavn.com/song/slava-funk/Mi8IRkxDAUM''"]
    unfolding str_contains_sublist sublist_def by simp
qed

subsection \<open>Splitting\<close>

lemma py_split_nonempty: "py_split sep s \<noteq> []"
  by (induction sep s rule: py_split.induct) (auto split: list.splits)

lemma py_split_no_match: "\<not> sublist sep s \<Longrightarrow> py_split sep s = [s]"
proof (induction s)
  case Nil
  then show ?case by simp
next
  case (Cons c cs)
  then show ?case by (simp add: sublist_Cons_right)
qed

text \<open>
  If \<open>sep\<close> matches at the very start of \<open>pre @ sep @ rest\<close> although \<open>pre\<close> is not
  empty, that match ends before the last character of the second copy of \<open>sep\<close>.
\<close>

lemma prefix_reaches_back:
  assumes "prefix sep (pre @ sep @ rest)" "pre \<noteq> []"
  shows "sublist sep (pre @ butlast sep)"
proof -
  from assms(1) obtain t where t: "pre @ sep @ rest = sep @ t" by (auto simp: prefix_def)
  have "take (length sep) (pre @ sep @ rest) = sep" using t by simp
  moreover have "take (length sep) (pre @ sep @ rest) = take (length sep) (pre @ butlast sep)"
    using assms(2) by (cases pre; cases sep rule: rev_cases) auto
  ultimately have "take (length sep) (pre @ butlast sep) = sep" by simp
  then have "prefix sep (pre @ butlast sep)" by (metis take_is_prefix)
  then show ?thesis by (auto simp: prefix_def sublist_def intro: exI[of _ "[]"])
qed

lemma py_split_first_match:
  assumes "sep \<noteq> []" "\<not> sublist sep (pre @ butlast sep)"
  shows "py_split sep (pre @ sep @ rest) = pre # py_split sep rest"
  using assms
proof (induction pre)
  case Nil
  then obtain c sep' where "sep = c # sep'" by (cases sep) auto
  then show ?case by simp
next
  case (Cons p pre)
  have np: "\<not> prefix sep ((p # pre) @ sep @ rest)"
    using prefix_reaches_back[of sep "p # pre" rest] Cons.prems(2) by blast
  have "\<not> sublist sep (pre @ butlast sep)"
    using Cons.prems(2) by (simp add: sublist_Cons_right)
  with Cons.IH Cons.prems(1) have "py_split sep (pre @ sep @ rest) = pre # py_split sep rest" by simp
  with np show ?case by simp
qed

lemma last_py_split_single:
  assumes "sep \<noteq> []" "\<not> sublist sep (pre @ butlast sep)" "\<not> sublist sep rest"
  shows "last (py_split sep (pre @ sep @ rest)) = rest"
  using assms by (simp add: py_split_first_match py_split_no_match)

lemma hd_py_split_char: "hd (py_split [d] s) = takeWhile (\<lambda>c. c \<noteq> d) s"
  by (induction s) (auto split: list.splits simp: py_split_nonempty)

text \<open>Joining the pieces with the separator gives the string back.\<close>

lemma py_join_split: "sep \<noteq> [] \<Longrightarrow> py_join sep (py_split sep s) = s"
proof (induction sep s rule: py_split.induct)
  case (1 sep)
  then show ?case by simp
next
  case (2 sep c cs)
  show ?case
  proof (cases "prefix sep (c # cs)")
    case True
    then obtain t where t: "c # cs = sep @ t" by (auto simp: prefix_def)
    from 2(3) obtain a sep' where s: "sep = a # sep'" by (cases sep) auto
    with t have d: "drop (length sep - 1) cs = t" by simp
    obtain q qs where q: "py_split sep t = q # qs"
      using py_split_nonempty[of sep t] by (cases "py_split sep t") auto
    have "py_split sep (c # cs) = [] # q # qs"
      using True d q by simp
    moreover have "py_join sep (q # qs) = t"
      using 2(1)[OF True] 2(3) d q by simp
    ultimately show ?thesis using t by simp
  next
    case False
    obtain q qs where q: "py_split sep cs = q # qs"
      using py_split_nonempty[of sep cs] by (cases "py_split sep cs") auto
    with False 2(2)[OF False] 2(3) show ?thesis by (cases qs) auto
  qed
qed

subsection \<open>The Spotify track identifier\<close>

text \<open>
  C5. For a URL in which \<open>/track/\<close> occurs once (no occurrence begins inside the part
  \<open>pre\<close> before it, none lies in the part \<open>rest\<close> after it), the track identifier is
  \<open>rest\<close> up to, and without, its first \<open>?\<close>. At
  \<open>https://open.spotify.com/track/3n3Ppam7vgaVa1iaRUc9Lp?si=abc\<close> it is
  \<open>3n3Ppam7vgaVa1iaRUc9Lp\<close>.
\<close>

theorem track_id_of_track_url:
  assumes "\<not> sublist ''/track/'' (pre @ ''/track'')"
      and "\<not> sublist ''/track/'' rest"
  shows "track_id_of_url (pre @ ''/track/'' @ rest) = takeWhile (\<lambda>c. c \<noteq> CHR ''?'') rest"
proof -
  have "last (py_split ''/track/'' (pre @ ''/track/'' @ rest)) = rest"
    using assms last_py_split_single[of "''/track/''" pre rest] by simp
  then show ?thesis by (simp add: track_id_of_url_def hd_py_split_char)
qed

theorem track_id_of_track_url_witness:
  "track_id_of_url ''https://open.spotify.com/track/3n3Ppam7vgaVa1iaRUc9Lp?si=abc''
     = ''3n3Ppam7vgaVa1iaRUc9Lp''"
proof -
  have a: "\<not> sublist ''/track/'' (''https://open.spotify.com'' @ ''/track'')"
    unfolding str_contains_sublist [symmetric] by simp
  have b: "\<not> sublist ''/track/'' ''3n3Ppam7vgaVa1iaRUc9Lp?si=abc''"
    unfolding str_contains_sublist [symmetric] by simp
  show ?thesis
    using track_id_of_track_url [OF a b] by simp
qed

subsection \<open>Quality presets\<close>

lemma preset_for_cases:
  "preset_for q =
     Inr (if q = ''1'' then \<lparr>name = ''M4A 320kbps (Best Quality)'', codec = ''m4a'', bitrate = Some ''320''\<rparr>
          else if q = ''2'' then \<lparr>name = ''Opus 160kbps (High Efficiency)'', codec = ''opus'', bitrate = Some ''160''\<rparr>
          else if q = ''3'' then \<lparr>name = ''Best Available (No Conversion)'', codec = ''best'', bitrate = None\<rparr>
          else \<lparr>name = ''M4A 320kbps (Best Quality)'', codec = ''m4a'', bitrate = Some ''320''\<rparr>)"
  by (simp add: preset_for_def QUALITY_PRESETS_def)

text \<open>
  C6. A choice key other than \<open>1\<close>, \<open>2\<close> and \<open>3\<close> resolves to the preset of key \<open>1\<close>,
  which is M4A at bitrate 320, and gives the same download options as key \<open>1\<close>; so
  does the key \<open>4\<close>.
\<close>

theorem unknown_key_is_preset_1:
  assumes "q \<noteq> ''1''" "q \<noteq> ''2''" "q \<noteq> ''3''"
  shows "preset_for q = preset_for ''1''
       \<and> preset_for q = Inr \<lparr>name = ''M4A 320kbps (Best Quality)'', codec = ''m4a'', bitrate = Some ''320''\<rparr>
       \<and> get_download_options self q = get_download_options self ''1''"
  using assms by (simp add: preset_for_cases get_download_options_def)

theorem unknown_key_is_preset_1_witness:
  "''4'' \<noteq> ''1'' \<and> ''4'' \<noteq> ''2'' \<and> ''4'' \<noteq> ''3''
   \<and> preset_for ''4'' = preset_for ''1''
   \<and> get_download_options \<lparr>output_dir = ''downloads''\<rparr> ''4''
     = get_download_options \<lparr>output_dir = ''downloads''\<rparr> ''1''"
  using unknown_key_is_preset_1 [of "''4''" "\<lparr>output_dir = ''downloads''\<rparr>"] by simp

text \<open>
  C7. Preset \<open>3\<close> gives download options whose list of post-processors is empty, and
  its bitrate is absent; presets \<open>1\<close> and \<open>2\<close> give one post-processor, the audio
  extraction to the preset's codec (\<open>m4a\<close>, \<open>opus\<close>) at the preset's bitrate (\<open>320\<close>,
  \<open>160\<close>).
\<close>

theorem download_options_by_preset:
  "get_download_options self ''3''
     = Inr \<lparr>format = ''bestaudio/best'', outtmpl = output_dir self @ ''/%(title)s.%(ext)s'',
            quiet = False, keepvideo = True, postprocessors = Some [],
            no_warnings = None, extract_audio = None, extractor_args = None\<rparr>
   \<and> and_then (preset_for ''3'') (\<lambda>p. Inr (bitrate p)) = Inr None
   \<and> get_download_options self ''1''
     = Inr \<lparr>format = ''bestaudio/best'', outtmpl = output_dir self @ ''/%(title)s.%(ext)s'',
            quiet = False, keepvideo = True,
            postprocessors = Some [[(''key'', ''FFmpegExtractAudio''), (''preferredcodec'', ''m4a''),
                                    (''preferredquality'', ''320'')]],
            no_warnings = None, extract_audio = None, extractor_args = None\<rparr>
   \<and> get_download_options self ''2''
     = Inr \<lparr>format = ''bestaudio/best'', outtmpl = output_dir self @ ''/%(title)s.%(ext)s'',
            quiet = False, keepvideo = True,
            postprocessors = Some [[(''key'', ''FFmpegExtractAudio''), (''preferredcodec'', ''opus''),
                                    (''preferredquality'', ''160'')]],
            no_warnings = None, extract_audio = None, extractor_args = None\<rparr>"
  by (simp add: preset_for_cases get_download_options_def and_then_def)

theorem download_options_by_preset_witness:
  "map_sum id postprocessors (get_download_options \<lparr>output_dir = ''downloads''\<rparr> ''3'') = Inr (Some [])
   \<and> map_sum id postprocessors (get_download_options \<lparr>output_dir = ''downloads''\<rparr> ''2'')
     = Inr (Some [[(''key'', ''FFmpegExtractAudio''), (''preferredcodec'', ''opus''),
                   (''preferredquality'', ''160'')]])"
  using download_options_by_preset [of "\<lparr>output_dir = ''downloads''\<rparr>"] by simp

subsection \<open>URLs of no known platform\<close>

text \<open>
  C8. When the URL the run works on is classified as other, the run makes no call at
  all (no HTTP request, no resolver, no download) and ends with the "Unknown URL type"
  message, which is a failed run.
\<close>

theorem other_url_fails_at_once:
  assumes "detect_url_type (url_or_default url_input) = Other"
  shows "main w url_input quality_input = ([], UnknownUrlType)
       \<and> failed (snd (main w url_input quality_input))"
  using assms by (simp add: main_def)

theorem other_url_fails_at_once_witness:
  "detect_url_type (url_or_default ''other-domain.com/x'') = Other
   \<and> main offline_world ''other-domain.com/x'' ''1'' = ([], UnknownUrlType)"
proof -
  have a: "detect_url_type (url_or_default ''other-domain.com/x'') = Other"
    by (simp add: url_or_default_def detect_url_type_def)
  from other_url_fails_at_once [OF a] a show ?thesis by simp
qed

subsection \<open>The audio URL of a song\<close>

lemma py_in_dict: "py_in k (PDict kvs) = Inr (map_of kvs k \<noteq> None)"
  by (simp add: map_of_eq_None_iff)

text \<open>
  C10. When the song details have the key \<open>encrypted_media_url\<close>, \<open>get_audio_url\<close> is
  exactly \<open>decrypt_url\<close> of its value, whether or not a \<open>media_preview_url\<close> is present;
  in particular it is \<open>None\<close> when the decryption request fails. When the details do
  not have that key, the result is the value of \<open>media_preview_url\<close>, or \<open>None\<close> without
  one, and no request is made.
\<close>

theorem encrypted_url_decides:
  "(map_of kvs ''encrypted_media_url'' = Some encrypted_url \<longrightarrow>
      get_audio_url w (PDict kvs) quality = decrypt_url w encrypted_url quality
      \<and> (\<forall>e. saavn_api w (decrypt_params encrypted_url quality) = Inl e \<longrightarrow>
            snd (get_audio_url w (PDict kvs) quality) = PNone))
   \<and> (map_of kvs ''encrypted_media_url'' = None \<longrightarrow>
      get_audio_url w (PDict kvs) quality
        = ([], case map_of kvs ''media_preview_url'' of None \<Rightarrow> PNone | Some preview \<Rightarrow> preview))"
  by (auto simp: get_audio_url_def py_in_dict decrypt_url_def or_none_def and_then_def
           simp del: py_in.simps split: option.splits)

theorem encrypted_url_decides_witness:
  "map_of [(''media_preview_url'', PStr ''https://preview.example/a.mp4''),
           (''encrypted_media_url'', PStr ''ID2ieOjCrwfgWvL5sXl4B1ImC5QfbsDy'')] ''encrypted_media_url''
     = Some (PStr ''ID2ieOjCrwfgWvL5sXl4B1ImC5QfbsDy'')
   \<and> saavn_api offline_world (decrypt_params (PStr ''ID2ieOjCrwfgWvL5sXl4B1ImC5QfbsDy'') ''320'')
     = Inl ExternalError
   \<and> snd (get_audio_url offline_world
       (PDict [(''media_preview_url'', PStr ''https://preview.example/a.mp4''),
               (''encrypted_media_url'', PStr ''ID2ieOjCrwfgWvL5sXl4B1ImC5QfbsDy'')]) ''320'') = PNone
   \<and> map_of [(''media_preview_url'', PStr ''https://preview.example/a.mp4'')] ''encrypted_media_url'' = None
   \<and> get_audio_url offline_world
       (PDict [(''media_preview_url'', PStr ''https://preview.example/a.mp4'')]) ''320''
     = ([], PStr ''https://preview.example/a.mp4'')"
proof -
  have a: "map_of [(''media_preview_url'', PStr ''https://preview.example/a.mp4''),
           (''encrypted_media_url'', PStr ''ID2ieOjCrwfgWvL5sXl4B1ImC5QfbsDy'')] ''encrypted_media_url''
     = Some (PStr ''ID2ieOjCrwfgWvL5sXl4B1ImC5QfbsDy'')"
    by simp
  have b: "saavn_api offline_world (decrypt_params (PStr ''ID2ieOjCrwfgWvL5sXl4B1ImC5QfbsDy'') ''320'')
     = Inl ExternalError"
    by (simp add: offline_world_def fixed_world_def)
  have c: "map_of [(''media_preview_url'', PStr ''https://preview.example/a.mp4'')] ''encrypted_media_url'' = None"
    by simp
  have d: "snd (get_audio_url offline_world
       (PDict [(''media_preview_url'', PStr ''https://preview.example/a.mp4''),
               (''encrypted_media_url'', PStr ''ID2ieOjCrwfgWvL5sXl4B1ImC5QfbsDy'')]) ''320'') = PNone"
    using a b
      encrypted_url_decides [of "[(''media_preview_url'', PStr ''https://preview.example/a.mp4''),
           (''encrypted_media_url'', PStr ''ID2ieOjCrwfgWvL5sXl4B1ImC5QfbsDy'')]"
           "PStr ''ID2ieOjCrwfgWvL5sXl4B1ImC5QfbsDy''" offline_world "''320''"]
    by blast
  have e: "get_audio_url offline_world
       (PDict [(''media_preview_url'', PStr ''https://preview.example/a.mp4'')]) ''320''
     = ([], PStr ''https://preview.example/a.mp4'')"
    using c
      encrypted_url_decides [of "[(''media_preview_url'', PStr ''https://preview.example/a.mp4'')]"
           "PStr ''x''" offline_world "''320''"]
    by simp
  from a b c d e show ?thesis by blast
qed

subsection \<open>The search that both branches end in\<close>

lemma get_download_options_total: "\<exists>opts. get_download_options self q = Inr opts"
  by (simp add: get_download_options_def preset_for_cases and_then_def Let_def)



lemma get_track_info_no_download:
  "get_track_info w self url = (evs, self', info) \<Longrightarrow> filter is_download evs = []"
  by (auto simp: get_track_info_def get_access_token_def Let_def split: if_splits sum.splits prod.splits)

subsection \<open>The JioSaavn branch\<close>





end
